theory Spec2Isabelle
  imports Main
begin

section \<open>JavaScript values used by the search route\<close>

text \<open>
  The route handler \<open>POST\<close> of \<open>src/app/page.tsx\<close> (the second document of that file, the
  search API) works on JSON values. A property that may be \<open>undefined\<close> is an \<open>option\<close>;
  strings are lists of code units, restricted here to the 8-bit range of \<^typ>\<open>char\<close>.
\<close>

text \<open>Truthiness of an optional string: \<open>undefined\<close> and the empty string are falsy.\<close>

fun truthy :: "string option \<Rightarrow> bool" where
  "truthy None = False"
| "truthy (Some s) = (s \<noteq> [])"

text \<open>The operator \<open>a || b\<close> on optional strings.\<close>

definition or_else :: "string option \<Rightarrow> string option \<Rightarrow> string option" where
  "or_else a b = (if truthy a then a else b)"

text \<open>A value spliced into a template literal: \<open>undefined\<close> prints as its name.\<close>

fun to_string :: "string option \<Rightarrow> string" where
  "to_string None = ''undefined''"
| "to_string (Some s) = s"

definition nl :: char where
  "nl = CHR 0x0A"

text \<open>A non-negative integer spliced into a template literal prints in decimal.\<close>

definition digit :: "nat \<Rightarrow> char" where
  "digit d = ''0123456789'' ! d"

fun decimal :: "nat \<Rightarrow> string" where
  "decimal n = (if n < 10 then [digit n] else decimal (n div 10) @ [digit (n mod 10)])"

declare decimal.simps [simp del]

text \<open>\<open>String.prototype.split\<close> with a one-character separator: the empty string splits into
  one empty piece, and a trailing separator leaves a trailing empty piece.\<close>

fun split_on :: "char \<Rightarrow> string \<Rightarrow> string list" where
  "split_on c [] = [[]]"
| "split_on c (x # xs) =
     (if x = c then [] # split_on c xs
      else (case split_on c xs of [] \<Rightarrow> [[x]] | w # ws \<Rightarrow> (x # w) # ws))"

text \<open>The white space and line terminators that \<open>String.prototype.trim\<close> removes, as far
  as they are 8-bit code units: TAB, LF, VT, FF, CR, SP and NBSP.\<close>

definition is_ws :: "char \<Rightarrow> bool" where
  "is_ws c = (c \<in> set [CHR 0x09, CHR 0x0A, CHR 0x0B, CHR 0x0C, CHR 0x0D, CHR 0x20, CHR 0xA0])"

definition trim :: "string \<Rightarrow> string" where
  "trim s = rev (dropWhile is_ws (rev (dropWhile is_ws s)))"

text \<open>\<open>Array.prototype.slice(start, end)\<close> for non-negative bounds.\<close>

definition slice :: "nat \<Rightarrow> nat \<Rightarrow> 'a list \<Rightarrow> 'a list" where
  "slice start end xs = take (end - start) (drop start xs)"

text \<open>\<open>Array.prototype.join\<close> on an array of strings.\<close>

fun join :: "string \<Rightarrow> string list \<Rightarrow> string" where
  "join sep [] = []"
| "join sep [x] = x"
| "join sep (x # y # ys) = x @ sep @ join sep (y # ys)"

text \<open>\<open>Array.prototype.map\<close> with the callback's index argument, counting from \<open>i\<close>.\<close>

fun map_index :: "nat \<Rightarrow> ('a \<Rightarrow> nat \<Rightarrow> 'b) \<Rightarrow> 'a list \<Rightarrow> 'b list" where
  "map_index i f [] = []"
| "map_index i f (x # xs) = f x i # map_index (Suc i) f xs"


section \<open>Follow-up questions\<close>

text \<open>
  Lines 452 to 456: the text of the follow-up generation is split on line feeds, every line
  trimmed, empty lines filtered out, and the first five kept.
\<close>

definition followUpQuestions :: "string \<Rightarrow> string list" where
  "followUpQuestions text =
     slice 0 5 (filter (\<lambda>q. length q > 0) (map trim (split_on nl text)))"

text \<open>
  The same list the way the specification words it, line by line: trim the line, discard it
  when nothing is left, and stop after five entries.
\<close>

fun first_questions :: "nat \<Rightarrow> string list \<Rightarrow> string list" where
  "first_questions 0 ls = []"
| "first_questions (Suc n) [] = []"
| "first_questions (Suc n) (l # ls) =
     (if trim l = [] then first_questions (Suc n) ls else trim l # first_questions n ls)"

definition spec_follow_up :: "string \<Rightarrow> string list" where
  "spec_follow_up text = first_questions 5 (split_on nl text)"


section \<open>Failures and their classification\<close>

text \<open>
  What a provider call throws. \<open>ErrorInstance m sc st\<close> is an instance of \<open>Error\<close> with
  message \<open>m\<close>; \<open>sc\<close> is its property \<open>statusCode\<close> and \<open>st\<close> its property \<open>status\<close>:
  \<open>None\<close> when the object has no such property, \<open>Some None\<close> when the property is there and
  \<open>undefined\<close>, \<open>Some (Some n)\<close> when it is the number \<open>n\<close> (status codes are integers).
  \<open>PlainObject\<close> is any other
  object, with its own \<open>message\<close> property if it has one. \<open>Primitive\<close> is a thrown value that
  is not an object (a string, a number, \<open>null\<close>, \<open>undefined\<close>), given by its printed form.
\<close>

datatype failure =
    ErrorInstance string "int option option" "int option option"
  | PlainObject "string option" "int option option" "int option option"
  | Primitive string

text \<open>The failure's own description, in the words of the specification's classifier: the
  \<open>message\<close> property of an object, or the printed form of a primitive.\<close>

fun description_of :: "failure \<Rightarrow> string option" where
  "description_of (ErrorInstance m sc st) = Some m"
| "description_of (PlainObject m sc st) = m"
| "description_of (Primitive s) = Some s"

text \<open>Line 468: \<open>error instanceof Error ? error.message : 'Unknown error'\<close>.\<close>

fun errorMessage :: "failure \<Rightarrow> string" where
  "errorMessage (ErrorInstance m sc st) = m"
| "errorMessage (PlainObject m sc st) = ''Unknown error''"
| "errorMessage (Primitive s) = ''Unknown error''"

text \<open>Lines 469 to 473: the property \<open>statusCode\<close> when the object has one, else the
  property \<open>status\<close> when the object has one, else \<open>undefined\<close>.\<close>

definition code_of_props :: "int option option \<Rightarrow> int option option \<Rightarrow> int option" where
  "code_of_props sc st =
     (case sc of Some v \<Rightarrow> v | None \<Rightarrow> (case st of Some v \<Rightarrow> v | None \<Rightarrow> None))"

fun statusCode :: "failure \<Rightarrow> int option" where
  "statusCode (ErrorInstance m sc st) = code_of_props sc st"
| "statusCode (PlainObject m sc st) = code_of_props sc st"
| "statusCode (Primitive s) = None"

record error_response =
  error :: string
  suggestion :: "string option"

text \<open>Lines 476 to 493: the table of user-friendly messages.\<close>

definition errorResponses :: "int \<Rightarrow> error_response option" where
  "errorResponses = map_of
     [(401, \<lparr>error = ''Invalid API key'',
             suggestion = Some ''Please check your Firecrawl API key is correct.''\<rparr>),
      (402, \<lparr>error = ''Insufficient credits'',
             suggestion = Some (''You'' @ [CHR 0x27] @
               ''ve run out of Firecrawl credits. Please upgrade your plan.'')\<rparr>),
      (429, \<lparr>error = ''Rate limit exceeded'',
             suggestion = Some ''Too many requests. Please wait a moment and try again.''\<rparr>),
      (504, \<lparr>error = ''Request timeout'',
             suggestion =
               Some ''The search took too long. Try a simpler query or fewer sources.''\<rparr>)]"

text \<open>Lines 495 to 497: a truthy status code (a number other than 0) with an entry in the
  table takes the entry; everything else takes the failure's message.\<close>

definition errorResponse :: "failure \<Rightarrow> error_response" where
  "errorResponse e =
     (case statusCode e of
        None \<Rightarrow> \<lparr>error = errorMessage e, suggestion = None\<rparr>
      | Some n \<Rightarrow>
          (if n \<noteq> 0
           then (case errorResponses n of
                   Some r \<Rightarrow> r
                 | None \<Rightarrow> \<lparr>error = errorMessage e, suggestion = None\<rparr>)
           else \<lparr>error = errorMessage e, suggestion = None\<rparr>))"


section \<open>Source documents\<close>

text \<open>An entry of the search provider's result, with the properties the handler reads.\<close>

record metadata =
  md_description :: "string option"
  md_ogImage :: "string option"
  md_image :: "string option"
  md_favicon :: "string option"
  md_siteName :: "string option"

record item =
  item_url :: "string option"
  item_title :: "string option"
  item_description :: "string option"
  item_content :: "string option"
  item_markdown :: "string option"
  item_publishedDate :: "string option"
  item_author :: "string option"
  item_metadata :: "metadata option"

record source =
  url :: "string option"
  title :: "string option"
  description :: "string option"
  content :: "string option"
  markdown :: "string option"
  publishedDate :: "string option"
  author :: "string option"
  image_url :: "string option"
  favicon :: "string option"
  siteName :: "string option"

text \<open>\<open>item.metadata?.f\<close>: \<open>undefined\<close> when there is no metadata.\<close>

definition md :: "(metadata \<Rightarrow> string option) \<Rightarrow> item \<Rightarrow> string option" where
  "md f i = (case item_metadata i of None \<Rightarrow> None | Some m \<Rightarrow> f m)"

text \<open>Lines 312 to 322, the callback of \<open>map\<close>.\<close>

definition to_source :: "item \<Rightarrow> source" where
  "to_source i =
     \<lparr>url = item_url i,
      title = or_else (item_title i) (item_url i),
      description = or_else (item_description i) (md md_description i),
      content = item_content i,
      markdown = item_markdown i,
      publishedDate = item_publishedDate i,
      author = item_author i,
      image_url = or_else (md md_ogImage i) (md md_image i),
      favicon = md md_favicon i,
      siteName = md md_siteName i\<rparr>"

text \<open>Lines 312 to 323: \<open>searchData.data?.map(...).filter((item) => item.url) || []\<close>.\<close>

definition sources_of :: "item list option \<Rightarrow> source list" where
  "sources_of data =
     (case data of
        None \<Rightarrow> []
      | Some items \<Rightarrow> filter (\<lambda>s. truthy (url s)) (map to_source items))"


section \<open>The context string\<close>

text \<open>
  \<open>selectRelevantContent\<close> is imported from \<open>@/lib/content-selection\<close>; the context builder
  takes it as the parameter \<open>sel\<close>. Line 344 is \<open>source.markdown || source.content || ''\<close>.
\<close>

definition source_text :: "source \<Rightarrow> string" where
  "source_text s =
     (let c = or_else (markdown s) (content s) in if truthy c then to_string c else [])"

text \<open>Line 346, the template literal of one document.\<close>

definition context_block ::
  "(string \<Rightarrow> string \<Rightarrow> nat \<Rightarrow> string) \<Rightarrow> string \<Rightarrow> source \<Rightarrow> nat \<Rightarrow> string" where
  "context_block sel query s index =
     ''['' @ decimal (index + 1) @ ''] '' @ to_string (title s) @ [nl] @
     ''URL: '' @ to_string (url s) @ [nl] @ sel (source_text s) query 2000"

definition delimiter :: string where
  "delimiter = [nl, nl] @ ''---'' @ [nl, nl]"

text \<open>Lines 342 to 348, the variable \<open>context\<close>.\<close>

definition context_string ::
  "(string \<Rightarrow> string \<Rightarrow> nat \<Rightarrow> string) \<Rightarrow> string \<Rightarrow> source list \<Rightarrow> string" where
  "context_string sel query sources =
     join delimiter (map_index 0 (context_block sel query) sources)"


section \<open>The event channel\<close>

text \<open>
  An event is the JSON object handed to \<open>dataStream.writeData\<close>: its properties in the order
  they are written. The channel carries these objects and, between them, the text fragments
  that the merged answer stream forwards.
\<close>

datatype jsvalue =
    JStr string
  | JNum int
  | JStrs "string list"
  | JSources "source list"

type_synonym event = "(string \<times> jsvalue) list"

datatype chunk = Data event | Text string

text \<open>The calls to the two providers, in the order they are made: the search with its
  query and result limit, the follow-up generation, and the streamed answer generation with
  the content of its last message.\<close>

datatype call = Search string nat | GenerateText | StreamText string

text \<open>The state of a turn: what is on the channel, the provider calls made, and whether
  the callback \<open>execute\<close> has returned. Until it returns the response stream stays open.\<close>

record stream_state =
  written :: "chunk list"
  calls :: "call list"
  returned :: bool

definition start :: stream_state where
  "start = \<lparr>written = [], calls = [], returned = False\<rparr>"

definition writeData :: "event \<Rightarrow> stream_state \<Rightarrow> stream_state" where
  "writeData ev st = st\<lparr>written := written st @ [Data ev]\<rparr>"

definition calling :: "call \<Rightarrow> stream_state \<Rightarrow> stream_state" where
  "calling c st = st\<lparr>calls := calls st @ [c]\<rparr>"

definition returning :: "stream_state \<Rightarrow> stream_state" where
  "returning st = st\<lparr>returned := True\<rparr>"

text \<open>
  Line 443, \<open>result.mergeIntoDataStream(dataStream)\<close>: the library forwards the answer's
  fragments to the channel in arrival order. The merge is not awaited and nothing aborts it,
  so it goes on while the handler waits at the join of line 446, and after the handler's last
  write when the join rejects before the answer stream has ended. \<open>mergeIntoDataStream\<close>
  writes the fragments forwarded until the join settles, \<open>forwarded_later\<close> those forwarded
  after the \<open>catch\<close> has written.
\<close>

definition mergeIntoDataStream :: "string list \<Rightarrow> stream_state \<Rightarrow> stream_state" where
  "mergeIntoDataStream frags st = st\<lparr>written := written st @ map Text frags\<rparr>"

definition forwarded_later :: "string list \<Rightarrow> stream_state \<Rightarrow> stream_state" where
  "forwarded_later frags st = st\<lparr>written := written st @ map Text frags\<rparr>"

definition status_event :: "string \<Rightarrow> event" where
  "status_event m = [(''type'', JStr ''status''), (''message'', JStr m)]"

definition sources_event :: "source list \<Rightarrow> event" where
  "sources_event srcs = [(''type'', JStr ''sources''), (''sources'', JSources srcs)]"

definition ticker_event :: "string \<Rightarrow> event" where
  "ticker_event t = [(''type'', JStr ''ticker''), (''symbol'', JStr t)]"

definition follow_up_event :: "string list \<Rightarrow> event" where
  "follow_up_event qs = [(''type'', JStr ''follow_up_questions''), (''questions'', JStrs qs)]"

definition complete_event :: event where
  "complete_event = [(''type'', JStr ''complete'')]"

text \<open>Lines 499 to 510, \<open>errorData\<close>: the suggestion is attached when it is truthy, the
  status code when it is truthy.\<close>

definition errorData :: "failure \<Rightarrow> event" where
  "errorData e =
     [(''type'', JStr ''error''), (''error'', JStr (error (errorResponse e)))] @
     (case suggestion (errorResponse e) of
        None \<Rightarrow> []
      | Some s \<Rightarrow> (if s \<noteq> [] then [(''suggestion'', JStr s)] else [])) @
     (case statusCode e of
        None \<Rightarrow> []
      | Some n \<Rightarrow> (if n \<noteq> 0 then [(''statusCode'', JNum n)] else []))"


section \<open>One turn\<close>

text \<open>
  What the providers do in one turn is an input of the model: the outcome of the search call
  (a failure, or the \<open>data\<close> property of its result); the fragments the answer stream has
  forwarded when the join of line 446 settles (all of them when it never does); the fragments
  it forwards after the join has rejected; the failure of the answer generation, if it fails;
  and the outcome of the follow-up generation.
\<close>

record providers =
  search_outcome :: "failure + item list option"
  fragments :: "string list"
  answer_failure :: "failure option"
  followUp_outcome :: "failure + string"
  late_fragments :: "string list"

text \<open>
  Lines 446 to 449, \<open>Promise.all([result.text, followUpPromise])\<close>. \<open>generateText\<close> rejects
  when the follow-up generation fails. \<open>streamText\<close> does not: a failure of the answer
  generation is reported inside the stream, and \<open>result.text\<close>, which resolves when the stream
  has ended well, is then never settled. So the join rejects with the follow-up's failure,
  resolves when both generations succeed, and stays pending when only the answer generation
  fails. Of the two values the handler reads the follow-up text only. What the library itself
  puts on the stream for a failed answer generation is not an event of the handler and is
  not part of the model.
\<close>

datatype joined = Rejected failure | Resolved string | Pending

definition promise_all :: "providers \<Rightarrow> joined" where
  "promise_all p =
     (case followUp_outcome p of
        Inl g \<Rightarrow> Rejected g
      | Inr t \<Rightarrow> (case answer_failure p of None \<Rightarrow> Resolved t | Some f \<Rightarrow> Pending))"

text \<open>Lines 378 and 405, the content of the last message of the answer generation.\<close>

definition user_prompt :: "string \<Rightarrow> string \<Rightarrow> string" where
  "user_prompt query ctx =
     ''Answer this query: '' @ [CHR 0x22] @ query @ [CHR 0x22] @ [nl, nl] @
     ''Based on these sources:'' @ [nl] @ ctx"

text \<open>
  Lines 284 to 513, the callback \<open>execute\<close> with its \<open>try\<close> and \<open>catch\<close>. The two imported
  functions \<open>selectRelevantContent\<close> and \<open>detectCompanyTicker\<close> are the parameters \<open>sel\<close> and
  \<open>detectCompanyTicker\<close>. Of the prompts of the two generation calls the model keeps the
  message that carries the context string; the outcomes of the calls are inputs.
  \<open>after_sources\<close> is the part from line 328 on. While the join is pending the handler
  writes nothing more and does not return.
\<close>

definition after_sources ::
  "(string \<Rightarrow> string \<Rightarrow> nat \<Rightarrow> string) \<Rightarrow> (string \<Rightarrow> string option) \<Rightarrow> providers \<Rightarrow>
   string \<Rightarrow> source list \<Rightarrow> stream_state \<Rightarrow> stream_state" where
  "after_sources sel detectCompanyTicker p query sources st =
     (let st1 = writeData (status_event ''Analyzing sources and generating answer...'') st;
          ticker = detectCompanyTicker query;
          st2 = (if truthy ticker then writeData (ticker_event (to_string ticker)) st1 else st1);
          ctx = context_string sel query sources;
          st3 = calling (StreamText (user_prompt query ctx)) (calling GenerateText st2);
          st4 = mergeIntoDataStream (fragments p) st3
      in case promise_all p of
           Rejected e \<Rightarrow>
             forwarded_later (late_fragments p) (returning (writeData (errorData e) st4))
         | Resolved text \<Rightarrow>
             returning
               (writeData complete_event
                  (writeData (follow_up_event (followUpQuestions text)) st4))
         | Pending \<Rightarrow> st4)"

definition execute ::
  "(string \<Rightarrow> string \<Rightarrow> nat \<Rightarrow> string) \<Rightarrow> (string \<Rightarrow> string option) \<Rightarrow> providers \<Rightarrow>
   string \<Rightarrow> stream_state" where
  "execute sel detectCompanyTicker p query =
     (let st1 = writeData (status_event ''Starting search...'') start;
          st2 = writeData (status_event ''Searching for relevant sources...'') st1;
          st3 = calling (Search query 6) st2
      in case search_outcome p of
           Inl e \<Rightarrow> returning (writeData (errorData e) st3)
         | Inr data \<Rightarrow>
             (let sources = sources_of data
              in after_sources sel detectCompanyTicker p query sources
                   (writeData (sources_event sources) st3)))"


section \<open>The request handler\<close>

record message =
  role :: string
  msg_content :: "string option"

record body =
  messages :: "message list option"
  query :: "string option"
  firecrawlApiKey :: "string option"

text \<open>A request is its parsed body. A request whose body cannot be read as an object
  (\<open>request.json()\<close> throws at line 249, or the body is \<open>null\<close> and line 250 throws) carries
  the thrown value and that value's stack trace; the \<open>catch\<close> of line 520 answers it.\<close>

datatype request = Unparseable failure string | Parsed body

record env =
  FIRECRAWL_API_KEY :: "string option"
  OPENAI_API_KEY :: "string option"

datatype response =
    JsonResponse nat event
  | DataStreamResponse "chunk list"

text \<open>Line 251, \<open>messages[messages.length - 1]?.content\<close>.\<close>

fun last_content :: "message list \<Rightarrow> string option" where
  "last_content [] = None"
| "last_content ms = msg_content (last ms)"

text \<open>Lines 250 and 251, the value of \<open>query\<close>.\<close>

definition query_of :: "body \<Rightarrow> string option" where
  "query_of b =
     (let ms = (case messages b of None \<Rightarrow> [] | Some l \<Rightarrow> l)
      in or_else (last_content ms) (query b))"

text \<open>Lines 245 to 530. The result is the response and the provider calls made for it.\<close>

definition POST ::
  "(string \<Rightarrow> string \<Rightarrow> nat \<Rightarrow> string) \<Rightarrow> (string \<Rightarrow> string option) \<Rightarrow> env \<Rightarrow> providers \<Rightarrow>
   request \<Rightarrow> response \<times> call list" where
  "POST sel detectCompanyTicker ev p req =
     (case req of
        Unparseable e stack \<Rightarrow>
          (JsonResponse 500
             [(''error'', JStr ''Search failed''),
              (''message'', JStr (errorMessage e)),
              (''details'', JStr (case e of ErrorInstance m sc st \<Rightarrow> stack | _ \<Rightarrow> []))],
           [])
      | Parsed b \<Rightarrow>
          (if \<not> truthy (query_of b)
           then (JsonResponse 400 [(''error'', JStr ''Query is required'')], [])
           else if \<not> truthy (or_else (firecrawlApiKey b) (FIRECRAWL_API_KEY ev))
           then (JsonResponse 500 [(''error'', JStr ''Firecrawl API key not configured'')], [])
           else if \<not> truthy (OPENAI_API_KEY ev)
           then (JsonResponse 500 [(''error'', JStr ''OpenAI API key not configured'')], [])
           else (let st = execute sel detectCompanyTicker p (to_string (query_of b))
                 in (DataStreamResponse (written st), calls st))))"


section \<open>Reading a written channel\<close>

text \<open>The kinds of chunk the specification's event model names. The detected-entity event
  is the one the handler writes with the type \<open>ticker\<close>; a text fragment is a token.\<close>

datatype kind = KStatus | KSources | KSymbol | KToken | KFollowUp | KComplete | KError | KOther

fun type_of :: "chunk \<Rightarrow> string option" where
  "type_of (Text t) = None"
| "type_of (Data ev) = (case map_of ev ''type'' of Some (JStr t) \<Rightarrow> Some t | _ \<Rightarrow> None)"

definition kind_of :: "chunk \<Rightarrow> kind" where
  "kind_of c =
     (case c of
        Text t \<Rightarrow> KToken
      | Data ev \<Rightarrow>
          (if type_of c = Some ''status'' then KStatus
           else if type_of c = Some ''sources'' then KSources
           else if type_of c = Some ''ticker'' then KSymbol
           else if type_of c = Some ''follow_up_questions'' then KFollowUp
           else if type_of c = Some ''complete'' then KComplete
           else if type_of c = Some ''error'' then KError
           else KOther))"

text \<open>
  The order of a successful turn as the specification states it: one or more status events,
  one sources event, at most one detected-entity event, the token fragments, one
  follow-up-questions event, one complete event, and nothing after it.
\<close>

definition stated_order :: "kind list \<Rightarrow> bool" where
  "stated_order ks =
     (takeWhile (\<lambda>k. k = KStatus) ks \<noteq> [] \<and>
      (case dropWhile (\<lambda>k. k = KStatus) ks of
         KSources # r \<Rightarrow>
           dropWhile (\<lambda>k. k = KToken) (case r of KSymbol # t \<Rightarrow> t | _ \<Rightarrow> r) =
             [KFollowUp, KComplete]
       | _ \<Rightarrow> False))"

section \<open>The content selector\<close>

text \<open>
  Modelled from the spec: \<open>selectRelevantContent\<close> lives in \<open>@/lib/content-selection\<close>, which
  is not among the sources; only its call at line 345 is. The definitions of this section
  follow section 4.1 of the specification. What that section leaves open is a parameter:
  the stride of the fixed-stride windows and the stopword set.
\<close>

text \<open>Modelled from the spec: lowercase of a code unit, for case-insensitive matching.\<close>

definition lower :: "char \<Rightarrow> char" where
  "lower c =
     (if 65 \<le> (of_char c :: nat) \<and> (of_char c :: nat) \<le> 90
      then char_of ((of_char c :: nat) + 32) else c)"

text \<open>Modelled from the spec: the pieces of a string between characters that satisfy \<open>P\<close>.\<close>

fun pieces :: "(char \<Rightarrow> bool) \<Rightarrow> string \<Rightarrow> string list" where
  "pieces P [] = [[]]"
| "pieces P (x # xs) =
     (if P x then [] # pieces P xs
      else (case pieces P xs of [] \<Rightarrow> [[x]] | w # ws \<Rightarrow> (x # w) # ws))"

text \<open>Modelled from the spec: the query's lowercase terms, without stopwords,
  deduplicated.\<close>

definition query_terms :: "string list \<Rightarrow> string \<Rightarrow> string list" where
  "query_terms stopwords q =
     remdups (filter (\<lambda>t. t \<noteq> [] \<and> t \<notin> set stopwords) (pieces is_ws (map lower q)))"

text \<open>Modelled from the spec: the number of places where a term occurs in a string.\<close>

fun occurrences :: "string \<Rightarrow> string \<Rightarrow> nat" where
  "occurrences t [] = 0"
| "occurrences t (x # xs) =
     (if t \<noteq> [] \<and> take (length t) (x # xs) = t then 1 else 0) + occurrences t xs"

text \<open>Modelled from the spec: a window's score, the count of query-term occurrences,
  case-insensitive.\<close>

definition score :: "string list \<Rightarrow> string \<Rightarrow> nat" where
  "score terms w = sum_list (map (\<lambda>t. occurrences t (map lower w)) terms)"

text \<open>Modelled from the spec: contiguous windows of a fixed stride (at least one character)
  that cover the whole text without gaps.\<close>

function windows :: "nat \<Rightarrow> string \<Rightarrow> string list" where
  "windows stride s =
     (if s = [] then []
      else take (Suc (stride - 1)) s # windows stride (drop (Suc (stride - 1)) s))"
  by pat_completeness auto
termination
  by (relation "measure (\<lambda>(stride, s). length s)") auto

declare windows.simps [simp del]

text \<open>Modelled from the spec: a candidate window is its position in the document, its score
  and its text. One candidate goes before another when its score is higher, or equal with a
  lower start offset.\<close>

type_synonym candidate = "nat \<times> nat \<times> string"

definition before :: "candidate \<Rightarrow> candidate \<Rightarrow> bool" where
  "before c d = (fst (snd d) < fst (snd c) \<or> (fst (snd c) = fst (snd d) \<and> fst c < fst d))"

text \<open>Modelled from the spec: the candidates best first, built by inserting each into the
  ordered list of the others.\<close>

fun insert_candidate :: "candidate \<Rightarrow> candidate list \<Rightarrow> candidate list" where
  "insert_candidate c [] = [c]"
| "insert_candidate c (d # ds) =
     (if before c d then c # d # ds else d # insert_candidate c ds)"

text \<open>Modelled from the spec: repeatedly accept the highest-scoring window not yet accepted
  until the accepted text reaches the budget or the candidates are exhausted.\<close>

fun accept :: "nat \<Rightarrow> nat \<Rightarrow> candidate list \<Rightarrow> candidate list" where
  "accept maxLength len [] = []"
| "accept maxLength len (c # cs) =
     (if maxLength \<le> len then []
      else c # accept maxLength (len + length (snd (snd c))) cs)"

text \<open>Modelled from the spec: truncation to the budget cuts at the last white space before
  the budget edge, when there is one.\<close>

definition cut_at_whitespace :: "nat \<Rightarrow> string \<Rightarrow> string" where
  "cut_at_whitespace maxLength s =
     (if length s \<le> maxLength then s
      else (let t = take maxLength s;
                u = rev (dropWhile (\<lambda>c. \<not> is_ws c) (rev t))
            in if u = [] then t else u))"

text \<open>Modelled from the spec: \<open>select(text, query, maxLength)\<close> of section 4.1. A text within
  the budget is returned unchanged. Otherwise the positively scored windows are accepted
  best first, concatenated in document order and truncated to the budget; when no window
  scores above zero the result is the leading \<open>maxLength\<close> characters.\<close>

definition select :: "nat \<Rightarrow> string list \<Rightarrow> string \<Rightarrow> string \<Rightarrow> nat \<Rightarrow> string" where
  "select stride stopwords text q maxLength =
     (if length text \<le> maxLength then text
      else (let terms = query_terms stopwords q;
                ws = windows stride text;
                cands = filter (\<lambda>c. 0 < fst (snd c))
                          (map_index 0 (\<lambda>w i. (i, score terms w, w)) ws);
                accepted = accept maxLength 0 (foldr insert_candidate cands [])
            in if cands = [] then take maxLength text
               else cut_at_whitespace maxLength
                      (concat (map (\<lambda>c. snd (snd c))
                         (filter (\<lambda>c. c \<in> set accepted) cands)))))"


section \<open>Properties of the string helpers\<close>

lemma split_on_nonempty: "split_on c s \<noteq> []"
  by (induction s) (auto split: list.splits)

lemma split_on_no_sep: "w \<in> set (split_on c s) \<Longrightarrow> c \<notin> set w"
proof (induction s arbitrary: w)
  case Nil
  then show ?case by simp
next
  case (Cons x xs)
  show ?case
  proof (cases "x = c")
    case True
    with Cons show ?thesis by auto
  next
    case False
    obtain v vs where sp: "split_on c xs = v # vs"
      using split_on_nonempty [of c xs] by (cases "split_on c xs") auto
    with False Cons.prems have "w = x # v \<or> w \<in> set vs" by auto
    then show ?thesis
    proof
      assume "w = x # v"
      moreover have "c \<notin> set v" using Cons.IH [of v] sp by simp
      ultimately show ?thesis using False by auto
    next
      assume "w \<in> set vs"
      then show ?thesis using Cons.IH [of w] sp by simp
    qed
  qed
qed

lemma join_split_on: "join [c] (split_on c s) = s"
proof (induction s)
  case Nil
  then show ?case by simp
next
  case (Cons x xs)
  obtain v vs where sp: "split_on c xs = v # vs"
    using split_on_nonempty [of c xs] by (cases "split_on c xs") auto
  show ?case
  proof (cases "x = c")
    case True
    with Cons sp show ?thesis by simp
  next
    case False
    with Cons sp show ?thesis by (cases vs) auto
  qed
qed

lemma trim_subset: "set (trim s) \<subseteq> set s"
proof -
  have "set (dropWhile is_ws (rev (dropWhile is_ws s))) \<subseteq> set (rev (dropWhile is_ws s))"
    by (rule set_dropWhileD [THEN subsetI])
  also have "\<dots> \<subseteq> set s"
    using set_dropWhileD [of _ is_ws s] by auto
  finally show ?thesis by (simp add: trim_def)
qed

lemma trim_hd: "trim s \<noteq> [] \<Longrightarrow> \<not> is_ws (hd (trim s))"
proof -
  assume ne: "trim s \<noteq> []"
  let ?a = "dropWhile is_ws s"
  let ?b = "dropWhile is_ws (rev ?a)"
  from ne have b: "?b \<noteq> []" by (simp add: trim_def)
  then have a: "?a \<noteq> []" by (metis dropWhile.simps(1) rev.simps(1))
  have "hd (rev ?b) = last ?b" using b by (simp add: hd_rev)
  also have "last ?b = last (rev ?a)"
    using b by (metis last_appendR takeWhile_dropWhile_id)
  also have "\<dots> = hd ?a" using a by (simp add: last_rev)
  finally have "hd (trim s) = hd ?a" by (simp add: trim_def)
  moreover have "\<not> is_ws (hd ?a)" using a by (rule hd_dropWhile)
  ultimately show ?thesis by simp
qed

lemma trim_last: "trim s \<noteq> [] \<Longrightarrow> \<not> is_ws (last (trim s))"
proof -
  assume ne: "trim s \<noteq> []"
  let ?b = "dropWhile is_ws (rev (dropWhile is_ws s))"
  from ne have b: "?b \<noteq> []" by (simp add: trim_def)
  have "last (rev ?b) = hd ?b" using b by (simp add: last_rev)
  moreover have "\<not> is_ws (hd ?b)" using b by (rule hd_dropWhile)
  ultimately show ?thesis by (simp add: trim_def)
qed

lemma first_questions_filter:
  "first_questions n ls = take n (filter (\<lambda>q. length q > 0) (map trim ls))"
proof (induction n ls rule: first_questions.induct)
  case (1 ls)
  then show ?case by simp
next
  case (2 n)
  then show ?case by simp
next
  case (3 n l ls)
  then show ?case by simp
qed


section \<open>What a turn writes\<close>

text \<open>The channel and the provider calls of a turn, by the outcome of the search.\<close>

lemma written_execute_search_failed:
  assumes "search_outcome p = Inl e"
  shows "written (execute sel det p q) =
    [Data (status_event ''Starting search...''),
     Data (status_event ''Searching for relevant sources...''),
     Data (errorData e)]"
  using assms by (simp add: execute_def writeData_def calling_def start_def returning_def)

lemma written_execute_searched:
  assumes "search_outcome p = Inr data"
  shows "written (execute sel det p q) =
    [Data (status_event ''Starting search...''),
     Data (status_event ''Searching for relevant sources...''),
     Data (sources_event (sources_of data)),
     Data (status_event ''Analyzing sources and generating answer...'')] @
    (if truthy (det q) then [Data (ticker_event (to_string (det q)))] else []) @
    map Text (fragments p) @
    (case promise_all p of
       Rejected e \<Rightarrow> [Data (errorData e)] @ map Text (late_fragments p)
     | Resolved t \<Rightarrow> [Data (follow_up_event (followUpQuestions t)), Data complete_event]
     | Pending \<Rightarrow> [])"
  using assms
  by (simp add: execute_def after_sources_def writeData_def calling_def start_def
      mergeIntoDataStream_def forwarded_later_def returning_def Let_def split: joined.splits)

lemma returned_execute:
  "returned (execute sel det p q) =
     (case search_outcome p of Inl e \<Rightarrow> True | Inr data \<Rightarrow> promise_all p \<noteq> Pending)"
  by (simp add: execute_def after_sources_def writeData_def calling_def start_def
      mergeIntoDataStream_def forwarded_later_def returning_def Let_def
      split: sum.splits joined.splits)

lemma calls_execute_search_failed:
  assumes "search_outcome p = Inl e"
  shows "calls (execute sel det p q) = [Search q 6]"
  using assms by (simp add: execute_def writeData_def calling_def start_def returning_def)

lemma calls_execute_searched:
  assumes "search_outcome p = Inr data"
  shows "calls (execute sel det p q) =
    [Search q 6, GenerateText, StreamText (user_prompt q (context_string sel q (sources_of data)))]"
  using assms
  by (simp add: execute_def after_sources_def writeData_def calling_def start_def
      mergeIntoDataStream_def forwarded_later_def returning_def Let_def split: joined.splits)

lemma kind_of_status [simp]: "kind_of (Data (status_event m)) = KStatus"
  by (simp add: kind_of_def status_event_def)

lemma kind_of_sources [simp]: "kind_of (Data (sources_event s)) = KSources"
  by (simp add: kind_of_def sources_event_def)

lemma kind_of_ticker [simp]: "kind_of (Data (ticker_event t)) = KSymbol"
  by (simp add: kind_of_def ticker_event_def)

lemma kind_of_follow_up [simp]: "kind_of (Data (follow_up_event qs)) = KFollowUp"
  by (simp add: kind_of_def follow_up_event_def)

lemma kind_of_complete [simp]: "kind_of (Data complete_event) = KComplete"
  by (simp add: kind_of_def complete_event_def)

lemma kind_of_error [simp]: "kind_of (Data (errorData e)) = KError"
  by (simp add: kind_of_def errorData_def)

lemma kind_of_text [simp]: "kind_of (Text t) = KToken"
  by (simp add: kind_of_def)

lemma kinds_of_fragments [simp]: "map (kind_of \<circ> Text) fs = replicate (length fs) KToken"
  by (induction fs) simp_all

lemma POST_streams:
  assumes "truthy (query_of b)"
    and "truthy (or_else (firecrawlApiKey b) (FIRECRAWL_API_KEY ev))"
    and "truthy (OPENAI_API_KEY ev)"
  shows "POST sel det ev p (Parsed b) =
    (DataStreamResponse (written (execute sel det p (to_string (query_of b)))),
     calls (execute sel det p (to_string (query_of b))))"
  using assms by (simp add: POST_def Let_def)

lemma promise_all_ok:
  "answer_failure p = None \<Longrightarrow> followUp_outcome p = Inr t \<Longrightarrow> promise_all p = Resolved t"
  by (simp add: promise_all_def)

lemma promise_all_rejected: "followUp_outcome p = Inl e \<Longrightarrow> promise_all p = Rejected e"
  by (simp add: promise_all_def)

lemma promise_all_pending:
  "answer_failure p = Some f \<Longrightarrow> followUp_outcome p = Inr t \<Longrightarrow> promise_all p = Pending"
  by (simp add: promise_all_def)


section \<open>Classified failures\<close>

lemma errorResponses_known:
  "errorResponses 401 = Some \<lparr>error = ''Invalid API key'',
      suggestion = Some ''Please check your Firecrawl API key is correct.''\<rparr>"
  "errorResponses 402 = Some \<lparr>error = ''Insufficient credits'',
      suggestion = Some (''You'' @ [CHR 0x27] @
        ''ve run out of Firecrawl credits. Please upgrade your plan.'')\<rparr>"
  "errorResponses 429 = Some \<lparr>error = ''Rate limit exceeded'',
      suggestion = Some ''Too many requests. Please wait a moment and try again.''\<rparr>"
  "errorResponses 504 = Some \<lparr>error = ''Request timeout'',
      suggestion = Some ''The search took too long. Try a simpler query or fewer sources.''\<rparr>"
  by (simp_all add: errorResponses_def)

lemma errorResponses_unknown:
  "n \<notin> {401, 402, 429, 504} \<Longrightarrow> errorResponses n = None"
  by (simp add: errorResponses_def)

lemma errorResponses_suggestion:
  "errorResponses n = Some r \<Longrightarrow> truthy (suggestion r)"
  by (auto simp: errorResponses_def split: if_splits)

lemma errorResponse_known:
  "statusCode e = Some n \<Longrightarrow> errorResponses n = Some r \<Longrightarrow> errorResponse e = r"
  by (auto simp: errorResponse_def errorResponses_def split: if_splits)

lemma errorResponse_unknown:
  "statusCode e \<notin> {Some 401, Some 402, Some 429, Some 504} \<Longrightarrow>
   errorResponse e = \<lparr>error = errorMessage e, suggestion = None\<rparr>"
  by (auto simp: errorResponse_def errorResponses_def split: option.splits)

lemma type_of_error: "type_of (Data (errorData e)) = Some ''error''"
  by (simp add: errorData_def)


section \<open>C1: the order of a successful turn\<close>

text \<open>
  Claim C1, as the handler has it. For every successful turn (the search returns, the answer
  stream finishes and the follow-up generation returns), the channel holds, in this order:
  the two status events of the search, the sources event, a third status event (line 332),
  the \<open>ticker\<close> event if the query names a company, the fragments of the answer, the
  follow-up-questions event and the complete event. So the sources event comes before every
  fragment, the follow-up questions come after all of them, and the complete event is last.
\<close>

theorem successful_turn_order:
  assumes "search_outcome p = Inr data"
    and "answer_failure p = None"
    and "followUp_outcome p = Inr reply"
  shows "written (execute sel det p q) =
      [Data (status_event ''Starting search...''),
       Data (status_event ''Searching for relevant sources...''),
       Data (sources_event (sources_of data)),
       Data (status_event ''Analyzing sources and generating answer...'')] @
      (if truthy (det q) then [Data (ticker_event (to_string (det q)))] else []) @
      map Text (fragments p) @
      [Data (follow_up_event (followUpQuestions reply)), Data complete_event] \<and>
    map kind_of (written (execute sel det p q)) =
      [KStatus, KStatus, KSources, KStatus] @
      (if truthy (det q) then [KSymbol] else []) @
      replicate (length (fragments p)) KToken @ [KFollowUp, KComplete] \<and>
    last (written (execute sel det p q)) = Data complete_event"
proof -
  have w: "written (execute sel det p q) =
      [Data (status_event ''Starting search...''),
       Data (status_event ''Searching for relevant sources...''),
       Data (sources_event (sources_of data)),
       Data (status_event ''Analyzing sources and generating answer...'')] @
      (if truthy (det q) then [Data (ticker_event (to_string (det q)))] else []) @
      map Text (fragments p) @
      [Data (follow_up_event (followUpQuestions reply)), Data complete_event]"
    by (simp add: written_execute_searched [OF assms(1)] promise_all_ok [OF assms(2,3)])
  have k: "map kind_of (written (execute sel det p q)) =
      [KStatus, KStatus, KSources, KStatus] @
      (if truthy (det q) then [KSymbol] else []) @
      replicate (length (fragments p)) KToken @ [KFollowUp, KComplete]"
    by (simp add: w)
  have l: "last (written (execute sel det p q)) = Data complete_event"
    by (simp add: w)
  from w k l show ?thesis by blast
qed

text \<open>A successful turn about a company, with two fragments.\<close>

theorem successful_turn_order_witness:
  "map kind_of (written (execute (\<lambda>t q n. t) (\<lambda>q. Some ''AAPL'')
      \<lparr>search_outcome = Inr (Some []), fragments = [''Ap'', ''ple''], answer_failure = None,
       followUp_outcome = Inr ''Why?'', late_fragments = []\<rparr> ''How is Apple doing'')) =
   [KStatus, KStatus, KSources, KStatus, KSymbol, KToken, KToken, KFollowUp, KComplete]"
  using successful_turn_order [where p =
      "\<lparr>search_outcome = Inr (Some []), fragments = [''Ap'', ''ple''], answer_failure = None,
        followUp_outcome = Inr ''Why?'', late_fragments = []\<rparr>"
      and data = "Some []" and reply = "''Why?''" and sel = "\<lambda>t q n. t"
      and det = "\<lambda>q. Some ''AAPL''" and q = "''How is Apple doing''"]
  by simp

text \<open>
  The claim as it is stated puts every status event before the sources event and lets the
  detected-entity event or the first fragment follow the sources event directly. A successful
  turn with one fragment and no detected entity has a status event after the sources event.
\<close>

theorem stated_order_counterexample:
  "last (written (execute (\<lambda>t q n. t) (\<lambda>q. None)
      \<lparr>search_outcome = Inr (Some []), fragments = [''Hi''], answer_failure = None,
       followUp_outcome = Inr [], late_fragments = []\<rparr> ''hi'')) = Data complete_event \<and>
   map kind_of (written (execute (\<lambda>t q n. t) (\<lambda>q. None)
      \<lparr>search_outcome = Inr (Some []), fragments = [''Hi''], answer_failure = None,
       followUp_outcome = Inr [], late_fragments = []\<rparr> ''hi'')) =
     [KStatus, KStatus, KSources, KStatus, KToken, KFollowUp, KComplete] \<and>
   \<not> stated_order (map kind_of (written (execute (\<lambda>t q n. t) (\<lambda>q. None)
      \<lparr>search_outcome = Inr (Some []), fragments = [''Hi''], answer_failure = None,
       followUp_outcome = Inr [], late_fragments = []\<rparr> ''hi'')))"
  by (simp add: written_execute_searched promise_all_def stated_order_def)


section \<open>C2: a failure after the channel is open\<close>

text \<open>What the \<open>catch\<close> of line 464 writes for the status code 429.\<close>

lemma errorData_429:
  assumes "statusCode e = Some 429"
  shows "errorData e =
    [(''type'', JStr ''error''), (''error'', JStr ''Rate limit exceeded''),
     (''suggestion'', JStr ''Too many requests. Please wait a moment and try again.''),
     (''statusCode'', JNum 429)]"
  using assms errorResponse_known [OF assms errorResponses_known(3)]
  by (simp add: errorData_def)

text \<open>A failure of the search is caught: one error event, nothing after it, no complete
  event, and the callback returns.\<close>

lemma search_failure_caught:
  assumes "search_outcome p = Inl e"
  shows "filter (\<lambda>c. kind_of c = KError) (written (execute sel det p q)) = [Data (errorData e)] \<and>
    last (written (execute sel det p q)) = Data (errorData e) \<and>
    KComplete \<notin> kind_of ` set (written (execute sel det p q)) \<and>
    returned (execute sel det p q)"
  using assms by (simp add: written_execute_search_failed returned_execute)

text \<open>A failure of the follow-up generation is caught: one error event, no complete event,
  and the callback returns. The fragments still to come follow the error event.\<close>

lemma followUp_failure_caught:
  assumes "search_outcome p = Inr data" and "followUp_outcome p = Inl e"
  shows "filter (\<lambda>c. kind_of c = KError) (written (execute sel det p q)) = [Data (errorData e)] \<and>
    KComplete \<notin> kind_of ` set (written (execute sel det p q)) \<and>
    returned (execute sel det p q) \<and>
    (\<exists>before. written (execute sel det p q) =
       before @ [Data (errorData e)] @ map Text (late_fragments p))"
proof -
  have j: "promise_all p = Rejected e" using assms(2) by (rule promise_all_rejected)
  have "filter (\<lambda>c. kind_of c = KError) (written (execute sel det p q)) = [Data (errorData e)]"
    by (simp add: written_execute_searched [OF assms(1)] j)
  moreover have "KComplete \<notin> kind_of ` set (written (execute sel det p q))"
    by (auto simp: written_execute_searched [OF assms(1)] j)
  moreover have "returned (execute sel det p q)"
    by (simp add: returned_execute assms(1) j)
  moreover have "\<exists>before. written (execute sel det p q) =
       before @ [Data (errorData e)] @ map Text (late_fragments p)"
    by (simp add: written_execute_searched [OF assms(1)] j)
  ultimately show ?thesis by blast
qed

text \<open>A failure of the answer generation alone is not caught: the join stays pending, no
  error event and no complete event is written, and the callback does not return.\<close>

lemma answer_failure_pending:
  assumes "search_outcome p = Inr data" and "answer_failure p = Some f"
    and "followUp_outcome p = Inr t"
  shows "filter (\<lambda>c. kind_of c = KError) (written (execute sel det p q)) = [] \<and>
    KComplete \<notin> kind_of ` set (written (execute sel det p q)) \<and>
    \<not> returned (execute sel det p q)"
proof -
  have j: "promise_all p = Pending" using assms(2,3) by (rule promise_all_pending)
  show ?thesis
    by (auto simp: written_execute_searched [OF assms(1)] returned_execute assms(1) j)
qed

text \<open>
  Claim C2 says that every failure raised after the channel is open is caught, that exactly
  one error event with the classified message, suggestion and code is written, and that the
  stream ends without a complete event. The handler does this for a failure of the search
  and of the follow-up generation, and not for a failure of the answer generation. In the
  turn below the answer generation fails with the status 429 after the sources event and one
  fragment, and the follow-up generation returns: nothing is written after the fragment,
  there is no error event, and the callback never returns, so the stream is not ended. In
  the same turn with the same failure thrown by the follow-up generation instead, the error
  event is written, with the rate-limit message, its suggestion and the code 429.
\<close>

theorem answer_failure_not_caught:
  "written (execute (\<lambda>t q n. t) (\<lambda>q. None)
      \<lparr>search_outcome = Inr (Some []), fragments = [''Par''],
       answer_failure = Some (ErrorInstance ''Too Many Requests'' (Some (Some 429)) None),
       followUp_outcome = Inr ''Why?'', late_fragments = []\<rparr> ''capital of France'') =
     [Data [(''type'', JStr ''status''), (''message'', JStr ''Starting search...'')],
      Data [(''type'', JStr ''status''),
            (''message'', JStr ''Searching for relevant sources...'')],
      Data [(''type'', JStr ''sources''), (''sources'', JSources [])],
      Data [(''type'', JStr ''status''),
            (''message'', JStr ''Analyzing sources and generating answer...'')],
      Text ''Par''] \<and>
   \<not> returned (execute (\<lambda>t q n. t) (\<lambda>q. None)
      \<lparr>search_outcome = Inr (Some []), fragments = [''Par''],
       answer_failure = Some (ErrorInstance ''Too Many Requests'' (Some (Some 429)) None),
       followUp_outcome = Inr ''Why?'', late_fragments = []\<rparr> ''capital of France'') \<and>
   written (execute (\<lambda>t q n. t) (\<lambda>q. None)
      \<lparr>search_outcome = Inr (Some []), fragments = [''Par''], answer_failure = None,
       followUp_outcome = Inl (ErrorInstance ''Too Many Requests'' (Some (Some 429)) None),
       late_fragments = [''is'']\<rparr> ''capital of France'') =
     [Data [(''type'', JStr ''status''), (''message'', JStr ''Starting search...'')],
      Data [(''type'', JStr ''status''),
            (''message'', JStr ''Searching for relevant sources...'')],
      Data [(''type'', JStr ''sources''), (''sources'', JSources [])],
      Data [(''type'', JStr ''status''),
            (''message'', JStr ''Analyzing sources and generating answer...'')],
      Text ''Par'',
      Data [(''type'', JStr ''error''), (''error'', JStr ''Rate limit exceeded''),
            (''suggestion'', JStr ''Too many requests. Please wait a moment and try again.''),
            (''statusCode'', JNum 429)],
      Text ''is''] \<and>
   returned (execute (\<lambda>t q n. t) (\<lambda>q. None)
      \<lparr>search_outcome = Inr (Some []), fragments = [''Par''], answer_failure = None,
       followUp_outcome = Inl (ErrorInstance ''Too Many Requests'' (Some (Some 429)) None),
       late_fragments = [''is'']\<rparr> ''capital of France'')"
  by (simp add: written_execute_searched returned_execute promise_all_def sources_of_def
      status_event_def sources_event_def errorData_429 code_of_props_def)

section \<open>C5: the follow-up questions\<close>

lemma followUp_length: "length (followUpQuestions r) \<le> 5"
  by (simp add: followUpQuestions_def slice_def)

lemma followUp_member:
  assumes "x \<in> set (followUpQuestions r)"
  shows "x \<noteq> [] \<and> (\<exists>l \<in> set (split_on nl r). x = trim l)"
proof -
  from assms have "x \<in> set (filter (\<lambda>q. length q > 0) (map trim (split_on nl r)))"
    unfolding followUpQuestions_def slice_def by (auto dest: in_set_takeD)
  then show ?thesis by auto
qed

lemma followUp_refines: "followUpQuestions r = spec_follow_up r"
  by (simp add: followUpQuestions_def spec_follow_up_def slice_def first_questions_filter)

lemma follow_up_on_channel:
  "filter (\<lambda>c. kind_of c = KFollowUp) (written (execute sel det p q)) =
     (case search_outcome p of
        Inl e \<Rightarrow> []
      | Inr data \<Rightarrow>
          (case followUp_outcome p of
             Inl e \<Rightarrow> []
           | Inr reply \<Rightarrow>
               (case answer_failure p of
                  Some f \<Rightarrow> []
                | None \<Rightarrow> [Data (follow_up_event (followUpQuestions reply))])))"
proof (cases "search_outcome p")
  case (Inl e)
  then show ?thesis by (simp add: written_execute_search_failed)
next
  case (Inr data)
  show ?thesis
    by (simp add: written_execute_searched [OF Inr] Inr promise_all_def
        split: sum.splits option.splits)
qed

text \<open>
  Claim C5. In every turn the channel carries at most one \<open>follow_up_questions\<close> event: none
  when the search or either generation fails, and otherwise the JSON object whose
  \<open>questions\<close> property is the list the specification describes for the text \<open>reply\<close> that the
  follow-up generation returned (split on line breaks, trim each line, discard the empty
  ones, keep the first five). That list is what lines 452 to 456 compute. For every text it
  has at most five entries; every entry is non-empty, is one of the lines trimmed, has no
  line break inside and no white space at either end; and the list may be empty, as it is for
  the empty text.
\<close>

theorem follow_up_questions_emitted:
  "filter (\<lambda>c. kind_of c = KFollowUp) (written (execute sel det p q)) =
     (case search_outcome p of
        Inl e \<Rightarrow> []
      | Inr data \<Rightarrow>
          (case followUp_outcome p of
             Inl e \<Rightarrow> []
           | Inr reply \<Rightarrow>
               (case answer_failure p of
                  Some f \<Rightarrow> []
                | None \<Rightarrow>
                    [Data [(''type'', JStr ''follow_up_questions''),
                           (''questions'', JStrs (spec_follow_up reply))]]))) \<and>
   followUpQuestions r = spec_follow_up r \<and>
   length (spec_follow_up r) \<le> 5 \<and>
   (\<forall>x \<in> set (spec_follow_up r).
      x \<noteq> [] \<and> nl \<notin> set x \<and> \<not> is_ws (hd x) \<and> \<not> is_ws (last x) \<and>
      (\<exists>l \<in> set (split_on nl r). x = trim l)) \<and>
   spec_follow_up [] = []"
proof (intro conjI ballI)
  show "filter (\<lambda>c. kind_of c = KFollowUp) (written (execute sel det p q)) =
     (case search_outcome p of
        Inl e \<Rightarrow> []
      | Inr data \<Rightarrow>
          (case followUp_outcome p of
             Inl e \<Rightarrow> []
           | Inr reply \<Rightarrow>
               (case answer_failure p of
                  Some f \<Rightarrow> []
                | None \<Rightarrow>
                    [Data [(''type'', JStr ''follow_up_questions''),
                           (''questions'', JStrs (spec_follow_up reply))]])))"
    by (simp add: follow_up_on_channel follow_up_event_def followUp_refines
        split: sum.splits option.splits)
  show "followUpQuestions r = spec_follow_up r" by (rule followUp_refines)
  show "length (spec_follow_up r) \<le> 5"
    using followUp_length [of r] by (simp add: followUp_refines)
  show "spec_follow_up [] = []"
    using followUp_refines [of "[]"] by (simp add: followUpQuestions_def slice_def trim_def)
next
  fix x assume "x \<in> set (spec_follow_up r)"
  then have x: "x \<in> set (followUpQuestions r)" by (simp add: followUp_refines)
  from followUp_member [OF x] obtain l where
    ne: "x \<noteq> []" and l: "l \<in> set (split_on nl r)" and xl: "x = trim l" by blast
  show "x \<noteq> []" by (rule ne)
  show "nl \<notin> set x" using split_on_no_sep [OF l] trim_subset [of l] xl by auto
  show "\<not> is_ws (hd x)" using trim_hd [of l] ne xl by simp
  show "\<not> is_ws (last x)" using trim_last [of l] ne xl by simp
  show "\<exists>l \<in> set (split_on nl r). x = trim l" using l xl by blast
qed

text \<open>A successful turn whose follow-up text has seven lines, one of them empty and one
  ending in a carriage return: the event carries five questions.\<close>

theorem follow_up_questions_emitted_witness:
  "filter (\<lambda>c. kind_of c = KFollowUp)
     (written (execute (\<lambda>t q n. t) (\<lambda>q. None)
      \<lparr>search_outcome = Inr (Some []), fragments = [''Hi''], answer_failure = None,
       followUp_outcome = Inr (''  Why now? '' @ [CHR 0x0D, nl, nl] @ ''How?'' @ [nl] @ ''a'' @ [nl] @
      ''b'' @ [nl] @ ''c'' @ [nl] @ ''d''),
       late_fragments = []\<rparr> ''why'')) =
   [Data [(''type'', JStr ''follow_up_questions''),
          (''questions'', JStrs [''Why now?'', ''How?'', ''a'', ''b'', ''c''])]]"
  using follow_up_questions_emitted [where sel = "\<lambda>t q n. t" and det = "\<lambda>q. None"
      and q = "''why''" and r = "''  Why now? '' @ [CHR 0x0D, nl, nl] @ ''How?'' @ [nl] @ ''a'' @ [nl] @
      ''b'' @ [nl] @ ''c'' @ [nl] @ ''d''" and p =
      "\<lparr>search_outcome = Inr (Some []), fragments = [''Hi''], answer_failure = None,
       followUp_outcome = Inr (''  Why now? '' @ [CHR 0x0D, nl, nl] @ ''How?'' @ [nl] @ ''a'' @ [nl] @
      ''b'' @ [nl] @ ''c'' @ [nl] @ ''d''),
       late_fragments = []\<rparr>"]
  by (simp add: followUpQuestions_def slice_def trim_def is_ws_def nl_def)


section \<open>C10: the titles of the sources\<close>

lemma truthy_or_else: "truthy (or_else a b) = (truthy a \<or> truthy b)"
  by (simp add: or_else_def)

lemma title_to_source:
  "title (to_source i) = (if truthy (item_title i) then item_title i else item_url i)"
  by (simp add: to_source_def or_else_def)

lemma url_to_source: "url (to_source i) = item_url i"
  by (simp add: to_source_def)

lemma sources_of_truthy:
  assumes "d \<in> set (sources_of data)"
  shows "truthy (url d) \<and> truthy (title d)"
proof (cases data)
  case None
  with assms show ?thesis by (simp add: sources_of_def)
next
  case (Some items)
  with assms obtain i where i: "i \<in> set items" "d = to_source i" "truthy (url d)"
    by (auto simp: sources_of_def)
  then have "truthy (item_url i)" by (simp add: url_to_source)
  then have "truthy (title (to_source i))" by (simp add: title_to_source)
  with i show ?thesis by simp
qed

text \<open>
  Claim C10. A turn whose search fails writes no sources event; a turn whose search returns
  writes exactly one, with the transformed entries that have a truthy url, and every document
  in it has a non-empty title: the title of an entry is the entry's own title when that is
  truthy, else its url, which is non-empty in every entry kept.
\<close>

theorem sources_titled:
  "(case search_outcome p of
      Inl e \<Rightarrow> filter (\<lambda>c. kind_of c = KSources) (written (execute sel det p q)) = []
    | Inr data \<Rightarrow>
        filter (\<lambda>c. kind_of c = KSources) (written (execute sel det p q)) =
          [Data (sources_event (sources_of data))] \<and>
        (\<forall>d \<in> set (sources_of data). \<exists>t. title d = Some t \<and> t \<noteq> []) \<and>
        (\<forall>items. data = Some items \<longrightarrow>
           sources_of data = filter (\<lambda>s. truthy (url s)) (map to_source items))) \<and>
   (\<forall>i. title (to_source i) = (if truthy (item_title i) then item_title i else item_url i))"
proof (intro conjI allI)
  show "title (to_source i) = (if truthy (item_title i) then item_title i else item_url i)" for i
    by (rule title_to_source)
  show "case search_outcome p of
      Inl e \<Rightarrow> filter (\<lambda>c. kind_of c = KSources) (written (execute sel det p q)) = []
    | Inr data \<Rightarrow>
        filter (\<lambda>c. kind_of c = KSources) (written (execute sel det p q)) =
          [Data (sources_event (sources_of data))] \<and>
        (\<forall>d \<in> set (sources_of data). \<exists>t. title d = Some t \<and> t \<noteq> []) \<and>
        (\<forall>items. data = Some items \<longrightarrow>
           sources_of data = filter (\<lambda>s. truthy (url s)) (map to_source items))"
  proof (cases "search_outcome p")
    case (Inl e)
    then show ?thesis by (simp add: written_execute_search_failed)
  next
    case (Inr data)
    have "filter (\<lambda>c. kind_of c = KSources) (written (execute sel det p q)) =
          [Data (sources_event (sources_of data))]"
      by (simp add: written_execute_searched [OF Inr] split: joined.splits)
    moreover have "\<exists>t. title d = Some t \<and> t \<noteq> []" if "d \<in> set (sources_of data)" for d
      using sources_of_truthy [OF that] by (cases "title d") simp_all
    moreover have "sources_of data = filter (\<lambda>s. truthy (url s)) (map to_source items)"
      if "data = Some items" for items
      using that by (simp add: sources_of_def)
    ultimately show ?thesis using Inr by simp
  qed
qed

text \<open>Three entries: one with a title, one without a title, one without a url.\<close>

theorem sources_titled_witness:
  "filter (\<lambda>c. kind_of c = KSources)
     (written (execute (\<lambda>t q n. t) (\<lambda>q. None)
        \<lparr>search_outcome = Inr (Some
           [\<lparr>item_url = Some ''https://a'', item_title = Some ''A'', item_description = None,
             item_content = None, item_markdown = Some ''text'', item_publishedDate = None,
             item_author = None, item_metadata = None\<rparr>,
            \<lparr>item_url = Some ''https://b'', item_title = None, item_description = None,
             item_content = None, item_markdown = None, item_publishedDate = None,
             item_author = None, item_metadata = None\<rparr>,
            \<lparr>item_url = None, item_title = Some ''C'', item_description = None,
             item_content = None, item_markdown = None, item_publishedDate = None,
             item_author = None, item_metadata = None\<rparr>]),
         fragments = [''Hi''], answer_failure = None, followUp_outcome = Inr [],
         late_fragments = []\<rparr> ''q'')) =
   [Data (sources_event
      [\<lparr>url = Some ''https://a'', title = Some ''A'', description = None, content = None,
        markdown = Some ''text'', publishedDate = None, author = None, image_url = None,
        favicon = None, siteName = None\<rparr>,
       \<lparr>url = Some ''https://b'', title = Some ''https://b'', description = None,
        content = None, markdown = None, publishedDate = None, author = None,
        image_url = None, favicon = None, siteName = None\<rparr>])]"
  using sources_titled [where sel = "\<lambda>t q n. t" and det = "\<lambda>q. None" and q = "''q''" and p =
      "\<lparr>search_outcome = Inr (Some
           [\<lparr>item_url = Some ''https://a'', item_title = Some ''A'', item_description = None,
             item_content = None, item_markdown = Some ''text'', item_publishedDate = None,
             item_author = None, item_metadata = None\<rparr>,
            \<lparr>item_url = Some ''https://b'', item_title = None, item_description = None,
             item_content = None, item_markdown = None, item_publishedDate = None,
             item_author = None, item_metadata = None\<rparr>,
            \<lparr>item_url = None, item_title = Some ''C'', item_description = None,
             item_content = None, item_markdown = None, item_publishedDate = None,
             item_author = None, item_metadata = None\<rparr>]),
         fragments = [''Hi''], answer_failure = None, followUp_outcome = Inr [],
         late_fragments = []\<rparr>"]
  by (simp add: sources_of_def to_source_def or_else_def md_def)


section \<open>C6: the detected-entity event\<close>

text \<open>
  Claim C6, as the handler has it. In every turn at most one detected-entity event is
  written; it is written only when the search has returned and \<open>detectCompanyTicker\<close> finds
  a symbol for the query (a non-empty string); and it is the JSON object whose type
  discriminator is \<open>ticker\<close> and whose one other property, \<open>symbol\<close>, is the detected symbol.
\<close>

theorem ticker_event_once:
  "filter (\<lambda>c. kind_of c = KSymbol) (written (execute sel det p q)) =
     (case search_outcome p of
        Inl e \<Rightarrow> []
      | Inr data \<Rightarrow>
          (case det q of
             None \<Rightarrow> []
           | Some t \<Rightarrow>
               if t = [] then []
               else [Data [(''type'', JStr ''ticker''), (''symbol'', JStr t)]])) \<and>
   length (filter (\<lambda>c. kind_of c = KSymbol) (written (execute sel det p q))) \<le> 1"
proof -
  have f: "filter (\<lambda>c. kind_of c = KSymbol) (written (execute sel det p q)) =
     (case search_outcome p of
        Inl e \<Rightarrow> []
      | Inr data \<Rightarrow>
          (case det q of
             None \<Rightarrow> []
           | Some t \<Rightarrow>
               if t = [] then []
               else [Data [(''type'', JStr ''ticker''), (''symbol'', JStr t)]]))"
  proof (cases "search_outcome p")
    case (Inl e)
    then show ?thesis by (simp add: written_execute_search_failed)
  next
    case (Inr data)
    show ?thesis
      by (simp add: written_execute_searched [OF Inr] Inr ticker_event_def
          kind_of_ticker [unfolded ticker_event_def] split: joined.splits option.splits)
  qed
  show ?thesis unfolding f by (simp split: sum.splits option.splits)
qed

text \<open>A turn about a company writes the one event.\<close>

theorem ticker_event_once_witness:
  "filter (\<lambda>c. kind_of c = KSymbol)
     (written (execute (\<lambda>t q n. t) (\<lambda>q. Some ''AAPL'')
        \<lparr>search_outcome = Inr (Some []), fragments = [''Ap'', ''ple''], answer_failure = None,
         followUp_outcome = Inr ''Why?'', late_fragments = []\<rparr> ''How is Apple doing'')) =
   [Data [(''type'', JStr ''ticker''), (''symbol'', JStr ''AAPL'')]]"
  using ticker_event_once [where sel = "\<lambda>t q n. t" and det = "\<lambda>q. Some ''AAPL''"
      and q = "''How is Apple doing''" and p =
      "\<lparr>search_outcome = Inr (Some []), fragments = [''Ap'', ''ple''], answer_failure = None,
        followUp_outcome = Inr ''Why?'', late_fragments = []\<rparr>"]
  by simp

text \<open>
  The claim as it is stated gives the event the type discriminator of the specification's
  variant \<open>symbol\<close>. In a turn whose query names a company the event has the type \<open>ticker\<close>,
  and no event of the turn has the type \<open>symbol\<close>.
\<close>

theorem symbol_type_counterexample:
  "Data [(''type'', JStr ''ticker''), (''symbol'', JStr ''AAPL'')] \<in>
     set (written (execute (\<lambda>t q n. t) (\<lambda>q. Some ''AAPL'')
        \<lparr>search_outcome = Inr (Some []), fragments = [''Ap'', ''ple''], answer_failure = None,
         followUp_outcome = Inr ''Why?'', late_fragments = []\<rparr> ''How is Apple doing'')) \<and>
   filter (\<lambda>c. type_of c = Some ''symbol'')
     (written (execute (\<lambda>t q n. t) (\<lambda>q. Some ''AAPL'')
        \<lparr>search_outcome = Inr (Some []), fragments = [''Ap'', ''ple''], answer_failure = None,
         followUp_outcome = Inr ''Why?'', late_fragments = []\<rparr> ''How is Apple doing'')) = []"
  by (simp add: written_execute_searched promise_all_def ticker_event_def status_event_def
      sources_event_def follow_up_event_def complete_event_def)


section \<open>C4: the classification of a failure\<close>

text \<open>
  Claim C4, as the handler has it. The status code of a failure is its property
  \<open>statusCode\<close> when the failure is an object with that property, else its property \<open>status\<close>
  when it is an object with that one, else there is none. The codes 401, 402, 429 and 504 give
  the messages of the table, each with a non-empty suggestion. For any other code, or when
  there is none, no suggestion is attached and the message is the failure's own message when
  the failure is an instance of \<open>Error\<close>, and the text \<open>Unknown error\<close> when it is not.
\<close>

theorem errorResponse_classified:
  "(statusCode e = Some 401 \<longrightarrow>
      errorResponse e = \<lparr>error = ''Invalid API key'',
        suggestion = Some ''Please check your Firecrawl API key is correct.''\<rparr>) \<and>
   (statusCode e = Some 402 \<longrightarrow>
      errorResponse e = \<lparr>error = ''Insufficient credits'',
        suggestion = Some (''You'' @ [CHR 0x27] @
          ''ve run out of Firecrawl credits. Please upgrade your plan.'')\<rparr>) \<and>
   (statusCode e = Some 429 \<longrightarrow>
      errorResponse e = \<lparr>error = ''Rate limit exceeded'',
        suggestion = Some ''Too many requests. Please wait a moment and try again.''\<rparr>) \<and>
   (statusCode e = Some 504 \<longrightarrow>
      errorResponse e = \<lparr>error = ''Request timeout'',
        suggestion =
          Some ''The search took too long. Try a simpler query or fewer sources.''\<rparr>) \<and>
   (statusCode e \<in> {Some 401, Some 402, Some 429, Some 504} \<longrightarrow>
      truthy (suggestion (errorResponse e))) \<and>
   (statusCode e \<notin> {Some 401, Some 402, Some 429, Some 504} \<longrightarrow>
      errorResponse e =
        \<lparr>error = (case e of ErrorInstance m sc st \<Rightarrow> m | _ \<Rightarrow> ''Unknown error''),
         suggestion = None\<rparr>) \<and>
   statusCode e =
     (case e of
        ErrorInstance m sc st \<Rightarrow>
          (case sc of Some c \<Rightarrow> c | None \<Rightarrow> (case st of Some c \<Rightarrow> c | None \<Rightarrow> None))
      | PlainObject m sc st \<Rightarrow>
          (case sc of Some c \<Rightarrow> c | None \<Rightarrow> (case st of Some c \<Rightarrow> c | None \<Rightarrow> None))
      | Primitive s \<Rightarrow> None)"
proof (intro conjI impI)
  assume "statusCode e = Some 401"
  then show "errorResponse e = \<lparr>error = ''Invalid API key'',
        suggestion = Some ''Please check your Firecrawl API key is correct.''\<rparr>"
    by (rule errorResponse_known) (rule errorResponses_known)
next
  assume "statusCode e = Some 402"
  then show "errorResponse e = \<lparr>error = ''Insufficient credits'',
        suggestion = Some (''You'' @ [CHR 0x27] @
          ''ve run out of Firecrawl credits. Please upgrade your plan.'')\<rparr>"
    by (rule errorResponse_known) (rule errorResponses_known)
next
  assume "statusCode e = Some 429"
  then show "errorResponse e = \<lparr>error = ''Rate limit exceeded'',
        suggestion = Some ''Too many requests. Please wait a moment and try again.''\<rparr>"
    by (rule errorResponse_known) (rule errorResponses_known)
next
  assume "statusCode e = Some 504"
  then show "errorResponse e = \<lparr>error = ''Request timeout'',
        suggestion =
          Some ''The search took too long. Try a simpler query or fewer sources.''\<rparr>"
    by (rule errorResponse_known) (rule errorResponses_known)
next
  assume "statusCode e \<in> {Some 401, Some 402, Some 429, Some 504}"
  then obtain n where n: "statusCode e = Some n" "n \<in> {401, 402, 429, 504}" by auto
  then obtain r where r: "errorResponses n = Some r" by (auto simp: errorResponses_def)
  from errorResponse_known [OF n(1) r] errorResponses_suggestion [OF r]
  show "truthy (suggestion (errorResponse e))" by simp
next
  assume "statusCode e \<notin> {Some 401, Some 402, Some 429, Some 504}"
  then have "errorResponse e = \<lparr>error = errorMessage e, suggestion = None\<rparr>"
    by (rule errorResponse_unknown)
  then show "errorResponse e =
        \<lparr>error = (case e of ErrorInstance m sc st \<Rightarrow> m | _ \<Rightarrow> ''Unknown error''),
         suggestion = None\<rparr>"
    by (cases e) simp_all
next
  show "statusCode e =
     (case e of
        ErrorInstance m sc st \<Rightarrow>
          (case sc of Some c \<Rightarrow> c | None \<Rightarrow> (case st of Some c \<Rightarrow> c | None \<Rightarrow> None))
      | PlainObject m sc st \<Rightarrow>
          (case sc of Some c \<Rightarrow> c | None \<Rightarrow> (case st of Some c \<Rightarrow> c | None \<Rightarrow> None))
      | Primitive s \<Rightarrow> None)"
    by (cases e) (simp_all add: code_of_props_def)
qed

text \<open>One failure for each entry of the table, one without a code and one with the code
  500.\<close>

theorem errorResponse_classified_witness:
  "errorResponse (ErrorInstance ''Unauthorized'' (Some (Some 401)) None) =
     \<lparr>error = ''Invalid API key'',
      suggestion = Some ''Please check your Firecrawl API key is correct.''\<rparr> \<and>
   errorResponse (ErrorInstance ''Payment Required'' None (Some (Some 402))) =
     \<lparr>error = ''Insufficient credits'',
      suggestion = Some (''You'' @ [CHR 0x27] @
        ''ve run out of Firecrawl credits. Please upgrade your plan.'')\<rparr> \<and>
   errorResponse (PlainObject None (Some (Some 429)) None) =
     \<lparr>error = ''Rate limit exceeded'',
      suggestion = Some ''Too many requests. Please wait a moment and try again.''\<rparr> \<and>
   errorResponse (ErrorInstance ''Gateway Timeout'' (Some (Some 504)) (Some (Some 500))) =
     \<lparr>error = ''Request timeout'',
      suggestion = Some ''The search took too long. Try a simpler query or fewer sources.''\<rparr> \<and>
   truthy (suggestion (errorResponse (PlainObject None (Some (Some 429)) None))) \<and>
   errorResponse (ErrorInstance ''fetch failed'' None None) =
     \<lparr>error = ''fetch failed'', suggestion = None\<rparr> \<and>
   errorResponse (ErrorInstance ''Server Error'' (Some (Some 500)) None) =
     \<lparr>error = ''Server Error'', suggestion = None\<rparr>"
  using errorResponse_classified [of "ErrorInstance ''Unauthorized'' (Some (Some 401)) None"]
    errorResponse_classified [of "ErrorInstance ''Payment Required'' None (Some (Some 402))"]
    errorResponse_classified [of "PlainObject None (Some (Some 429)) None"]
    errorResponse_classified [of "ErrorInstance ''Gateway Timeout'' (Some (Some 504)) (Some (Some 500))"]
    errorResponse_classified [of "ErrorInstance ''fetch failed'' None None"]
    errorResponse_classified [of "ErrorInstance ''Server Error'' (Some (Some 500)) None"]
  by (simp add: code_of_props_def)

text \<open>
  The claim as it is stated makes the message of an unlisted code the failure's own
  description, and extracts a numeric code whenever one is present. A thrown plain object with
  the message \<open>boom\<close> and the status 500 is reported as \<open>Unknown error\<close>; and an error whose
  property \<open>statusCode\<close> is there but undefined keeps its own message although its property
  \<open>status\<close> is 429.
\<close>

theorem description_counterexample:
  "statusCode (PlainObject (Some ''boom'') None (Some (Some 500))) = Some 500 \<and>
   description_of (PlainObject (Some ''boom'') None (Some (Some 500))) = Some ''boom'' \<and>
   error (errorResponse (PlainObject (Some ''boom'') None (Some (Some 500)))) = ''Unknown error'' \<and>
   statusCode (ErrorInstance ''Too Many Requests'' (Some None) (Some (Some 429))) = None \<and>
   error (errorResponse (ErrorInstance ''Too Many Requests'' (Some None) (Some (Some 429)))) =
     ''Too Many Requests''"
  by (simp add: errorResponse_def errorResponses_def code_of_props_def)


section \<open>C8 and C9: a request without a query\<close>

lemma POST_without_query:
  "\<not> truthy (query_of b) \<Longrightarrow>
   POST sel det ev p (Parsed b) = (JsonResponse 400 [(''error'', JStr ''Query is required'')], [])"
  by (simp add: POST_def)

lemma query_of_empty_content:
  assumes "messages b = Some ms" and "ms \<noteq> []" and "msg_content (last ms) = Some []"
  shows "query_of b = query b"
proof -
  from assms(2) obtain m ms' where "ms = m # ms'" by (cases ms) auto
  then have "last_content ms = msg_content (last ms)" by simp
  with assms show ?thesis by (simp add: query_of_def or_else_def)
qed

lemma POST_unparseable:
  "POST sel det ev p (Unparseable e stack) =
     (JsonResponse 500
        [(''error'', JStr ''Search failed''),
         (''message'', JStr (errorMessage e)),
         (''details'', JStr (case e of ErrorInstance m sc st \<Rightarrow> stack | _ \<Rightarrow> []))],
      [])"
  by (simp add: POST_def)

lemma POST_400_only_without_query:
  "(fst (POST sel det ev p req) = JsonResponse 400 [(''error'', JStr ''Query is required'')]) =
     (case req of Parsed b \<Rightarrow> \<not> truthy (query_of b) | Unparseable e stack \<Rightarrow> False)"
  by (cases req) (simp_all add: POST_def Let_def)

text \<open>
  Claim C8, as the handler has it. For every request whose body is read as an object and
  yields no query (the content of the latest message and the \<open>query\<close> property are both
  falsy), the handler answers at once with the JSON object \<open>{error: 'Query is required'}\<close> and
  the status 400. No provider is called, no event channel is opened, and the answer does not
  depend on the environment or on what the providers would have done. These are the only
  requests answered so. A request whose body cannot be read as an object never reaches the
  extraction of line 251: the \<open>catch\<close> of line 520 answers it with the JSON object
  \<open>{error: 'Search failed', message, details}\<close> and the status 500, also without a provider
  call and without an event channel.
\<close>

theorem missing_query_400:
  "(\<not> truthy (query_of b) \<longrightarrow>
      POST sel det ev p (Parsed b) =
        (JsonResponse 400 [(''error'', JStr ''Query is required'')], []) \<and>
      POST sel det ev p (Parsed b) = POST sel' det' ev' p' (Parsed b)) \<and>
   (fst (POST sel det ev p req) = JsonResponse 400 [(''error'', JStr ''Query is required'')]) =
     (case req of Parsed b \<Rightarrow> \<not> truthy (query_of b) | Unparseable e stack \<Rightarrow> False) \<and>
   POST sel det ev p (Unparseable e stack) =
     (JsonResponse 500
        [(''error'', JStr ''Search failed''),
         (''message'', JStr (errorMessage e)),
         (''details'', JStr (case e of ErrorInstance m sc st \<Rightarrow> stack | _ \<Rightarrow> []))],
      [])"
proof (intro conjI impI)
  assume "\<not> truthy (query_of b)"
  then show "POST sel det ev p (Parsed b) =
      (JsonResponse 400 [(''error'', JStr ''Query is required'')], [])"
    by (rule POST_without_query)
next
  assume q: "\<not> truthy (query_of b)"
  show "POST sel det ev p (Parsed b) = POST sel' det' ev' p' (Parsed b)"
    by (simp add: POST_without_query [OF q])
next
  show "(fst (POST sel det ev p req) =
      JsonResponse 400 [(''error'', JStr ''Query is required'')]) =
     (case req of Parsed b \<Rightarrow> \<not> truthy (query_of b) | Unparseable e stack \<Rightarrow> False)"
    by (rule POST_400_only_without_query)
next
  show "POST sel det ev p (Unparseable e stack) =
     (JsonResponse 500
        [(''error'', JStr ''Search failed''),
         (''message'', JStr (errorMessage e)),
         (''details'', JStr (case e of ErrorInstance m sc st \<Rightarrow> stack | _ \<Rightarrow> []))],
      [])"
    by (rule POST_unparseable)
qed

text \<open>A body with no messages and no query, although both keys are configured.\<close>

theorem missing_query_400_witness:
  "POST (\<lambda>t q n. t) (\<lambda>q. None)
     \<lparr>FIRECRAWL_API_KEY = Some ''fc-key'', OPENAI_API_KEY = Some ''sk-key''\<rparr>
     \<lparr>search_outcome = Inr (Some []), fragments = [''Hi''], answer_failure = None,
      followUp_outcome = Inr [], late_fragments = []\<rparr>
     (Parsed \<lparr>messages = None, query = None, firecrawlApiKey = None\<rparr>) =
   (JsonResponse 400 [(''error'', JStr ''Query is required'')], [])"
  using missing_query_400 [where sel = "\<lambda>t q n. t" and det = "\<lambda>q. None"
      and ev = "\<lparr>FIRECRAWL_API_KEY = Some ''fc-key'', OPENAI_API_KEY = Some ''sk-key''\<rparr>"
      and p = "\<lparr>search_outcome = Inr (Some []), fragments = [''Hi''], answer_failure = None,
      followUp_outcome = Inr [], late_fragments = []\<rparr>"
      and b = "\<lparr>messages = None, query = None, firecrawlApiKey = None\<rparr>"]
  by (simp add: query_of_def or_else_def)

text \<open>
  The claim as it is stated gives the status 400 to every request from which no query string
  can be extracted. A request whose body is not JSON is such a request: \<open>request.json()\<close>
  throws a syntax error, and the answer is the status 500 with the error \<open>Search failed\<close>.
\<close>

theorem unparseable_body_counterexample:
  "POST (\<lambda>t q n. t) (\<lambda>q. None)
     \<lparr>FIRECRAWL_API_KEY = Some ''fc-key'', OPENAI_API_KEY = Some ''sk-key''\<rparr>
     \<lparr>search_outcome = Inr (Some []), fragments = [''Hi''], answer_failure = None,
      followUp_outcome = Inr [], late_fragments = []\<rparr>
     (Unparseable (ErrorInstance ''Unexpected end of JSON input'' None None)
        ''SyntaxError: Unexpected end of JSON input'') =
   (JsonResponse 500
      [(''error'', JStr ''Search failed''),
       (''message'', JStr ''Unexpected end of JSON input''),
       (''details'', JStr ''SyntaxError: Unexpected end of JSON input'')],
    []) \<and>
   fst (POST (\<lambda>t q n. t) (\<lambda>q. None)
     \<lparr>FIRECRAWL_API_KEY = Some ''fc-key'', OPENAI_API_KEY = Some ''sk-key''\<rparr>
     \<lparr>search_outcome = Inr (Some []), fragments = [''Hi''], answer_failure = None,
      followUp_outcome = Inr [], late_fragments = []\<rparr>
     (Unparseable (ErrorInstance ''Unexpected end of JSON input'' None None)
        ''SyntaxError: Unexpected end of JSON input'')) \<noteq>
   JsonResponse 400 [(''error'', JStr ''Query is required'')]"
  by (simp add: POST_def)

text \<open>
  Claim C9. A request whose latest message has the empty string as its content, and whose
  \<open>query\<close> property is missing or empty, is answered with the same status-400 error as a
  request with no messages and no query at all.
\<close>

theorem empty_content_400:
  assumes "messages b = Some ms" and "ms \<noteq> []" and "msg_content (last ms) = Some []"
    and "\<not> truthy (query b)"
  shows "POST sel det ev p (Parsed b) =
      (JsonResponse 400 [(''error'', JStr ''Query is required'')], []) \<and>
    POST sel det ev p (Parsed b) =
      POST sel det ev p (Parsed \<lparr>messages = None, query = None, firecrawlApiKey = k\<rparr>)"
proof -
  have "\<not> truthy (query_of b)"
    using query_of_empty_content [OF assms(1-3)] assms(4) by simp
  moreover have "\<not> truthy (query_of \<lparr>messages = None, query = None, firecrawlApiKey = k\<rparr>)"
    by (simp add: query_of_def or_else_def)
  ultimately show ?thesis by (simp add: POST_without_query)
qed

text \<open>One message with empty content, and an empty \<open>query\<close> property.\<close>

theorem empty_content_400_witness:
  "POST (\<lambda>t q n. t) (\<lambda>q. None)
     \<lparr>FIRECRAWL_API_KEY = Some ''fc-key'', OPENAI_API_KEY = Some ''sk-key''\<rparr>
     \<lparr>search_outcome = Inr (Some []), fragments = [''Hi''], answer_failure = None,
      followUp_outcome = Inr [], late_fragments = []\<rparr>
     (Parsed \<lparr>messages = Some [\<lparr>role = ''user'', msg_content = Some []\<rparr>], query = Some [],
        firecrawlApiKey = None\<rparr>) =
   (JsonResponse 400 [(''error'', JStr ''Query is required'')], [])"
  using empty_content_400 [where sel = "\<lambda>t q n. t" and det = "\<lambda>q. None"
      and ev = "\<lparr>FIRECRAWL_API_KEY = Some ''fc-key'', OPENAI_API_KEY = Some ''sk-key''\<rparr>"
      and p = "\<lparr>search_outcome = Inr (Some []), fragments = [''Hi''], answer_failure = None,
        followUp_outcome = Inr [], late_fragments = []\<rparr>"
      and ms = "[\<lparr>role = ''user'', msg_content = Some []\<rparr>]"
      and b = "\<lparr>messages = Some [\<lparr>role = ''user'', msg_content = Some []\<rparr>], query = Some [],
        firecrawlApiKey = None\<rparr>"]
  by simp


section \<open>C7: the context string\<close>

lemma map_index_length: "length (map_index i f xs) = length xs"
  by (induction xs arbitrary: i) simp_all

lemma map_index_nth: "k < length xs \<Longrightarrow> map_index i f xs ! k = f (xs ! k) (i + k)"
proof (induction xs arbitrary: i k)
  case Nil
  then show ?case by simp
next
  case (Cons x xs)
  then show ?case by (cases k) simp_all
qed

lemma map_index_append:
  "map_index i f (xs @ ys) = map_index i f xs @ map_index (i + length xs) f ys"
  by (induction xs arbitrary: i) simp_all

lemma join_snoc: "xs \<noteq> [] \<Longrightarrow> join sep (xs @ [x]) = join sep xs @ sep @ x"
proof (induction sep xs rule: join.induct)
  case (1 sep)
  then show ?case by simp
next
  case (2 sep y)
  then show ?case by simp
next
  case (3 sep y z zs)
  then show ?case by simp
qed

text \<open>
  Claim C7. For every list of documents the context string is the blocks of the documents,
  one for each document and in input order, joined by the delimiter \<open>\\n\\n---\\n\\n\<close>. The
  block of the document at index \<open>k\<close> is \<open>[k+1] title\<close>, a line feed, \<open>URL: url\<close>, a line
  feed, and the excerpt selected from the document with the budget 2000. Appending a
  document appends the delimiter and its block; a document whose excerpt is empty still
  contributes its block, which then ends after the line feed of the URL line.
\<close>

theorem context_blocks:
  "context_string sel q srcs =
     join ([nl, nl] @ ''---'' @ [nl, nl])
       (map (\<lambda>k. context_block sel q (srcs ! k) k) [0..<length srcs]) \<and>
   (\<forall>k s. context_block sel q s k =
      ''['' @ decimal (k + 1) @ ''] '' @ to_string (title s) @ [nl] @
      ''URL: '' @ to_string (url s) @ [nl] @ sel (source_text s) q 2000) \<and>
   context_string sel q [] = [] \<and>
   context_string sel q [s] = context_block sel q s 0 \<and>
   (srcs \<noteq> [] \<longrightarrow>
      context_string sel q (srcs @ [s]) =
        context_string sel q srcs @ [nl, nl] @ ''---'' @ [nl, nl] @
        context_block sel q s (length srcs)) \<and>
   (sel (source_text s) q 2000 = [] \<longrightarrow>
      context_block sel q s k =
        ''['' @ decimal (k + 1) @ ''] '' @ to_string (title s) @ [nl] @
        ''URL: '' @ to_string (url s) @ [nl])"
proof (intro conjI allI impI)
  have "map_index 0 (context_block sel q) srcs =
      map (\<lambda>k. context_block sel q (srcs ! k) k) [0..<length srcs]"
    by (rule nth_equalityI) (simp_all add: map_index_length map_index_nth)
  then show "context_string sel q srcs =
     join ([nl, nl] @ ''---'' @ [nl, nl])
       (map (\<lambda>k. context_block sel q (srcs ! k) k) [0..<length srcs])"
    by (simp add: context_string_def delimiter_def)
next
  show "context_block sel q s k =
      ''['' @ decimal (k + 1) @ ''] '' @ to_string (title s) @ [nl] @
      ''URL: '' @ to_string (url s) @ [nl] @ sel (source_text s) q 2000" for s k
    by (simp add: context_block_def)
next
  show "context_string sel q [] = []" by (simp add: context_string_def)
next
  show "context_string sel q [s] = context_block sel q s 0" by (simp add: context_string_def)
next
  assume ne: "srcs \<noteq> []"
  then have "map_index 0 (context_block sel q) srcs \<noteq> []"
    using map_index_length [of 0 "context_block sel q" srcs] by auto
  then show "context_string sel q (srcs @ [s]) =
        context_string sel q srcs @ [nl, nl] @ ''---'' @ [nl, nl] @
        context_block sel q s (length srcs)"
    by (simp add: context_string_def map_index_append join_snoc delimiter_def)
next
  assume "sel (source_text s) q 2000 = []"
  then show "context_block sel q s k =
        ''['' @ decimal (k + 1) @ ''] '' @ to_string (title s) @ [nl] @
        ''URL: '' @ to_string (url s) @ [nl]"
    by (simp add: context_block_def)
qed

text \<open>Two documents, the second with empty content.\<close>

theorem context_blocks_witness:
  "context_string (\<lambda>t q n. t) ''q''
     ([\<lparr>url = Some ''https://a'', title = Some ''A'', description = None, content = None,
        markdown = Some ''text'', publishedDate = None, author = None, image_url = None,
        favicon = None, siteName = None\<rparr>] @
      [\<lparr>url = Some ''https://b'', title = Some ''https://b'', description = None,
        content = Some [], markdown = None, publishedDate = None, author = None,
        image_url = None, favicon = None, siteName = None\<rparr>]) =
   ''[1] A'' @ [nl] @ ''URL: https://a'' @ [nl] @ ''text'' @ [nl, nl] @ ''---'' @ [nl, nl] @
   ''[2] https://b'' @ [nl] @ ''URL: https://b'' @ [nl]"
  using context_blocks [where sel = "\<lambda>t q n. t" and q = "''q''"
      and srcs = "[\<lparr>url = Some ''https://a'', title = Some ''A'', description = None,
        content = None, markdown = Some ''text'', publishedDate = None, author = None,
        image_url = None, favicon = None, siteName = None\<rparr>]"
      and s = "\<lparr>url = Some ''https://b'', title = Some ''https://b'', description = None,
        content = Some [], markdown = None, publishedDate = None, author = None,
        image_url = None, favicon = None, siteName = None\<rparr>"
      and k = 1]
  by (simp add: context_string_def context_block_def source_text_def or_else_def
      decimal.simps digit_def)


section \<open>C3: the length of the selected excerpt\<close>

lemma cut_at_whitespace_length: "length (cut_at_whitespace n s) \<le> n"
proof (cases "length s \<le> n")
  case True
  then show ?thesis by (simp add: cut_at_whitespace_def)
next
  case False
  let ?t = "take n s"
  let ?u = "rev (dropWhile (\<lambda>c. \<not> is_ws c) (rev ?t))"
  have "length ?u \<le> length ?t"
    using length_dropWhile_le [of "\<lambda>c. \<not> is_ws c" "rev ?t"] by simp
  moreover have "length ?t \<le> n" by simp
  ultimately have "length (if ?u = [] then ?t else ?u) \<le> n" by simp
  with False show ?thesis by (simp add: cut_at_whitespace_def Let_def)
qed

text \<open>
  Claim C3, on the selector modelled from section 4.1 of the specification. For every stride,
  stopword set, text, query and budget: a text within the budget is returned unchanged, and
  the excerpt of a longer text is within the budget; so the excerpt never exceeds the budget.
\<close>

theorem select_within_budget:
  "(length text \<le> maxLength \<longrightarrow> select stride stopwords text q maxLength = text) \<and>
   (maxLength < length text \<longrightarrow> length (select stride stopwords text q maxLength) \<le> maxLength) \<and>
   length (select stride stopwords text q maxLength) \<le> maxLength"
proof (cases "length text \<le> maxLength")
  case True
  then have "select stride stopwords text q maxLength = text" by (simp add: select_def)
  with True show ?thesis by simp
next
  case False
  let ?cands = "filter (\<lambda>c. 0 < fst (snd c))
      (map_index 0 (\<lambda>w i. (i, score (query_terms stopwords q) w, w)) (windows stride text))"
  let ?accepted = "accept maxLength 0 (foldr insert_candidate ?cands [])"
  have "length (select stride stopwords text q maxLength) \<le> maxLength"
  proof (cases "?cands = []")
    case True
    with False have "select stride stopwords text q maxLength = take maxLength text"
      by (simp add: select_def Let_def)
    then show ?thesis by simp
  next
    case nonempty: False
    with False have "select stride stopwords text q maxLength =
        cut_at_whitespace maxLength
          (concat (map (\<lambda>c. snd (snd c)) (filter (\<lambda>c. c \<in> set ?accepted) ?cands)))"
      by (simp add: select_def Let_def)
    then show ?thesis by (simp add: cut_at_whitespace_length)
  qed
  with False show ?thesis by simp
qed

text \<open>A truncated selection of two windows, the fallback when no term matches, and a text
  within the budget.\<close>

theorem select_within_budget_witness:
  "select 5 [''the''] ''aaaa bbbb cat dddd cat eee cat'' ''the Cat'' 8 = ''cat de '' \<and>
   select 5 [''the''] ''aaaa bbbb cat dddd'' ''the dog'' 6 = ''aaaa b'' \<and>
   select 5 [''the''] ''aaaa bbbb cat dddd'' ''the Cat'' 60 = ''aaaa bbbb cat dddd''"
  using select_within_budget [of "''aaaa bbbb cat dddd cat eee cat''" 8 5 "[''the'']" "''the Cat''"]
    select_within_budget [of "''aaaa bbbb cat dddd''" 6 5 "[''the'']" "''the dog''"]
    select_within_budget [of "''aaaa bbbb cat dddd''" 60 5 "[''the'']" "''the Cat''"]
  by code_simp

end
